theory Spec2Isabelle
  imports Complex_Main "HOL-Library.Char_ord" "HOL-Library.List_Lexorder" "HOL-Library.Multiset"
begin

section \<open>Values and errors\<close>

text \<open>
  The values \<^verbatim>\<open>json.load\<close> produces: \<^verbatim>\<open>None\<close>, booleans, integers, floats, strings,
  lists and dictionaries with string keys. A dictionary is an association list with
  distinct keys, read with \<open>map_of\<close>; \<^verbatim>\<open>dict.items()\<close> is the list itself (insertion
  order). Floats are modelled as real numbers: rounding, infinities and NaN are left out.
\<close>

datatype pyval =
    PNone
  | PBool bool
  | PInt int
  | PFloat real
  | PStr string
  | PList "pyval list"
  | PDict "(string \<times> pyval) list"

text \<open>
  The exceptions the script can raise. \<open>ValueError\<close> is the insufficient-data error of
  \<^verbatim>\<open>should_trigger\<close>; \<open>FileError\<close> stands for a failure to open or parse a file,
  \<open>RequestError\<close> for any exception of the \<^verbatim>\<open>requests\<close> library. \<open>NotModelled\<close> marks the
  one place where the model stops: sorting by keys that are not all strings.
\<close>

datatype error =
    ValueError
  | IndexError
  | KeyError
  | TypeError
  | AttributeError
  | StatisticsError
  | ZeroDivisionError
  | FileError
  | RequestError
  | NotModelled

text \<open>\<^verbatim>\<open>DUMMY = "xxx"\<close>\<close>

definition DUMMY :: string where
  "DUMMY = ''xxx''"

text \<open>\<^verbatim>\<open>s.startswith(p)\<close>\<close>

definition startswith :: "string \<Rightarrow> string \<Rightarrow> bool" where
  "startswith s p = (take (length p) s = p)"

text \<open>Truth value of an object, as \<^verbatim>\<open>not x\<close>, \<^verbatim>\<open>x or y\<close> and \<^verbatim>\<open>if x\<close> read it.\<close>

fun truthy :: "pyval \<Rightarrow> bool" where
  "truthy PNone = False"
| "truthy (PBool b) = b"
| "truthy (PInt i) = (i \<noteq> 0)"
| "truthy (PFloat r) = (r \<noteq> 0)"
| "truthy (PStr s) = (s \<noteq> [])"
| "truthy (PList xs) = (xs \<noteq> [])"
| "truthy (PDict kvs) = (kvs \<noteq> [])"

text \<open>Running a fallible function over a list, stopping at the first exception.\<close>

fun try_map :: "('a \<Rightarrow> error + 'b) \<Rightarrow> 'a list \<Rightarrow> error + 'b list" where
  "try_map f [] = Inr []"
| "try_map f (x # xs) =
     (case f x of
        Inl e \<Rightarrow> Inl e
      | Inr y \<Rightarrow> (case try_map f xs of Inl e \<Rightarrow> Inl e | Inr ys \<Rightarrow> Inr (y # ys)))"

section \<open>Normalising the sleep records: \<^verbatim>\<open>nightly_totals\<close>\<close>

text \<open>
  The filter of the comprehension:
  \<^verbatim>\<open>isinstance(rec, dict) and rec.get("type") == "long_sleep" and "total_sleep_duration" in rec\<close>
\<close>

fun qualifies :: "pyval \<Rightarrow> bool" where
  "qualifies (PDict kvs) =
     (map_of kvs ''type'' = Some (PStr ''long_sleep'') \<and>
      map_of kvs ''total_sleep_duration'' \<noteq> None)"
| "qualifies _ = False"

text \<open>
  \<^verbatim>\<open>v / 3600\<close>: true division of a number (a bool is an int in Python) by the literal
  3600; any other operand raises \<^verbatim>\<open>TypeError\<close>.
\<close>

fun div_3600 :: "pyval \<Rightarrow> error + real" where
  "div_3600 (PInt i) = Inr (real_of_int i / 3600)"
| "div_3600 (PFloat r) = Inr (r / 3600)"
| "div_3600 (PBool b) = Inr ((if b then 1 else 0) / 3600)"
| "div_3600 _ = Inl TypeError"

text \<open>\<^verbatim>\<open>rec["total_sleep_duration"] / 3600\<close>\<close>

fun duration_hours :: "pyval \<Rightarrow> error + real" where
  "duration_hours (PDict kvs) =
     (case map_of kvs ''total_sleep_duration'' of
        None \<Rightarrow> Inl KeyError
      | Some v \<Rightarrow> div_3600 v)"
| "duration_hours _ = Inl TypeError"

text \<open>\<^verbatim>\<open>xs[-8:]\<close>\<close>

definition last8 :: "'a list \<Rightarrow> 'a list" where
  "last8 xs = drop (length xs - 8) xs"

definition nightly_totals :: "pyval list \<Rightarrow> error + real list" where
  "nightly_totals records =
     (let clean = filter qualifies records
      in case try_map duration_hours clean of
           Inl e \<Rightarrow> Inl e
         | Inr hs \<Rightarrow> Inr (last8 hs))"

section \<open>The trigger rule: \<^verbatim>\<open>should_trigger\<close>\<close>

text \<open>\<^verbatim>\<open>hours[-1]\<close> raises \<^verbatim>\<open>IndexError\<close> on the empty list.\<close>

fun index_last :: "'a list \<Rightarrow> error + 'a" where
  "index_last [] = Inl IndexError"
| "index_last xs = Inr (last xs)"

text \<open>\<^verbatim>\<open>statistics.mean\<close> raises \<^verbatim>\<open>StatisticsError\<close> on the empty list.\<close>

fun mean :: "real list \<Rightarrow> error + real" where
  "mean [] = Inl StatisticsError"
| "mean xs = Inr (sum_list xs / real (length xs))"

text \<open>Division of floats raises \<^verbatim>\<open>ZeroDivisionError\<close> when the divisor is zero.\<close>

definition py_div :: "real \<Rightarrow> real \<Rightarrow> error + real" where
  "py_div a b = (if b = 0 then Inl ZeroDivisionError else Inr (a / b))"

text \<open>
  Lines 90-91 of \<^verbatim>\<open>should_trigger\<close>:
  \<^verbatim>\<open>last, baseline = hours[-1], stats.mean(hours[:-1])\<close>
  \<^verbatim>\<open>pct_change = abs(last - baseline) / baseline * 100 if baseline else 0\<close>.
  The condition is the truth value of the float \<^verbatim>\<open>baseline\<close>: it is nonzero.
\<close>

definition trigger_locals :: "real list \<Rightarrow> error + real \<times> real \<times> real" where
  "trigger_locals hours =
     (case index_last hours of
        Inl e \<Rightarrow> Inl e
      | Inr lst \<Rightarrow>
          (case mean (butlast hours) of
             Inl e \<Rightarrow> Inl e
           | Inr baseline \<Rightarrow>
               (if baseline \<noteq> 0
                then (case py_div \<bar>lst - baseline\<bar> baseline of
                        Inl e \<Rightarrow> Inl e
                      | Inr q \<Rightarrow> Inr (lst, baseline, q * 100))
                else Inr (lst, baseline, 0))))"

text \<open>
  What \<^verbatim>\<open>should_trigger\<close> returns: \<^verbatim>\<open>a or b and c\<close> is \<^verbatim>\<open>a or (b and c)\<close>, and
  \<^verbatim>\<open>and\<close>/\<^verbatim>\<open>or\<close> return one of their operands, so the result is \<^verbatim>\<open>True\<close>, \<^verbatim>\<open>False\<close> or the
  number \<^verbatim>\<open>pct_change\<close>.
\<close>

datatype pyret = RBool bool | RNum real

fun ret_truthy :: "pyret \<Rightarrow> bool" where
  "ret_truthy (RBool b) = b"
| "ret_truthy (RNum r) = (r \<noteq> 0)"

text \<open>\<^verbatim>\<open>return last < min_hours or pct_change > deviation_pct and pct_change\<close>\<close>

definition trigger_expr :: "real \<Rightarrow> real \<Rightarrow> real \<Rightarrow> real \<Rightarrow> pyret" where
  "trigger_expr lst pct_change deviation_pct min_hours =
     (if lst < min_hours then RBool True
      else if pct_change > deviation_pct then RNum pct_change
      else RBool False)"

definition should_trigger :: "real list \<Rightarrow> real \<Rightarrow> real \<Rightarrow> error + pyret" where
  "should_trigger hours deviation_pct min_hours =
     (if length hours < 8 then Inl ValueError
      else (case trigger_locals hours of
              Inl e \<Rightarrow> Inl e
            | Inr (lst, baseline, pct_change) \<Rightarrow>
                Inr (trigger_expr lst pct_change deviation_pct min_hours)))"

text \<open>The decision the caller's \<^verbatim>\<open>if should_trigger(...)\<close> takes.\<close>

definition triggered :: "real list \<Rightarrow> real \<Rightarrow> real \<Rightarrow> error + bool" where
  "triggered hours deviation_pct min_hours =
     (case should_trigger hours deviation_pct min_hours of
        Inl e \<Rightarrow> Inl e
      | Inr r \<Rightarrow> Inr (ret_truthy r))"

section \<open>The outside world and what the script does to it\<close>

text \<open>
  Everything the script reads from outside is a parameter: the parsed configuration file
  (\<open>None\<close> when the path does not exist), the parsed sample file, today's date (as a
  day number), the sleep provider's answer to a request (token, start day, end day) and
  the outcome of a post to the survey provider (url, api token, payload; \<open>None\<close> means
  that \<^verbatim>\<open>requests.post\<close> returned).
\<close>

datatype payload =
    EmailPayload pyval pyval pyval
  | SmsPayload pyval pyval pyval

record env =
  config_file :: "(error + pyval) option"
  sample_file :: "error + pyval"
  today :: int
  oura_get :: "string \<Rightarrow> int \<Rightarrow> int \<Rightarrow> error + pyval"
  qualtrics_post :: "string \<Rightarrow> string \<Rightarrow> payload \<Rightarrow> error option"

text \<open>
  What the script does, in order: each \<^verbatim>\<open>print\<close>, the read of the sample file, and
  each network request. The reports carry the number handed to \<^verbatim>\<open>round(_, 2)\<close>; the
  formatting of the printed text is not modelled.
\<close>

datatype event =
    InfoNoConfig
  | InfoSampleData
  | OpenSample
  | HttpGet string string int int
  | Processing string
  | ReportLastNight real
  | ReportPrevious "real list"
  | ReportPctChange real
  | TriggerMet
  | NoTrigger
  | DryRunEmail
  | SendingEmail
  | DryRunSMS
  | SendingSMS
  | HttpPost string string payload

fun is_network :: "event \<Rightarrow> bool" where
  "is_network (HttpGet url tok s e) = True"
| "is_network (HttpPost url tok p) = True"
| "is_network _ = False"

definition OURA_SLEEP_URL :: string where
  "OURA_SLEEP_URL = ''https://api.ouraring.com/v2/usercollection/sleep''"

definition QUALTRICS_DIST_URL :: string where
  "QUALTRICS_DIST_URL = ''https://iad1.qualtrics.com/API/v3/distributions''"

definition QUALTRICS_SMS_URL :: string where
  "QUALTRICS_SMS_URL = QUALTRICS_DIST_URL @ ''/sms''"

text \<open>
  A step of the script is the events it produced and its result. \<open>then_do\<close> runs the
  next step only when the one before returned: an exception ends the sequence, since no
  function of the script catches one.
\<close>

type_synonym 'a step = "event list \<times> (error + 'a)"

fun then_do :: "'a step \<Rightarrow> ('a \<Rightarrow> 'b step) \<Rightarrow> 'b step" where
  "then_do (evs, Inl e) f = (evs, Inl e)"
| "then_do (evs, Inr x) f = (case f x of (evs', r) \<Rightarrow> (evs @ evs', r))"

definition emit :: "event \<Rightarrow> unit step" where
  "emit ev = ([ev], Inr ())"

definition pure_step :: "error + 'a \<Rightarrow> 'a step" where
  "pure_step r = ([], r)"

text \<open>
  \<^verbatim>\<open>d.get(key, default)\<close> on a dictionary; on any other value of \<^verbatim>\<open>json.load\<close>,
  \<^verbatim>\<open>.get\<close> raises \<^verbatim>\<open>AttributeError\<close>.
\<close>

fun py_get :: "pyval \<Rightarrow> string \<Rightarrow> pyval \<Rightarrow> error + pyval" where
  "py_get (PDict kvs) k dflt = Inr (case map_of kvs k of None \<Rightarrow> dflt | Some v \<Rightarrow> v)"
| "py_get _ k dflt = Inl AttributeError"

text \<open>\<^verbatim>\<open>v[key]\<close> with a string key.\<close>

fun py_subscript :: "pyval \<Rightarrow> string \<Rightarrow> error + pyval" where
  "py_subscript (PDict kvs) k = (case map_of kvs k of None \<Rightarrow> Inl KeyError | Some v \<Rightarrow> Inr v)"
| "py_subscript _ k = Inl TypeError"

text \<open>
  Iterating over a value: a list gives its elements, a dictionary its keys, a string its
  characters; nothing else is iterable.
\<close>

fun py_iter :: "pyval \<Rightarrow> error + pyval list" where
  "py_iter (PList xs) = Inr xs"
| "py_iter (PDict kvs) = Inr (map (\<lambda>kv. PStr (fst kv)) kvs)"
| "py_iter (PStr s) = Inr (map (\<lambda>c. PStr [c]) s)"
| "py_iter _ = Inl TypeError"

section \<open>Configuration: \<^verbatim>\<open>load_config\<close>\<close>

definition load_config :: "env \<Rightarrow> pyval step" where
  "load_config w =
     (case config_file w of
        None \<Rightarrow>
          then_do (emit InfoNoConfig) (\<lambda>_.
          pure_step (Inr (PDict [(''oura_api_tokens'', PDict [(''sample'', PStr DUMMY)]),
                                 (''qualtrics'', PDict [(''api_token'', PStr DUMMY)])])))
      | Some r \<Rightarrow> pure_step r)"

section \<open>Acquiring the records: \<^verbatim>\<open>fetch_sleep_json\<close>\<close>

text \<open>
  \<^verbatim>\<open>sorted(data, key=lambda d: d["day"])\<close>. The keys are computed first, for every
  element in order. A list of at most one element is returned without any comparison.
  String keys compare lexicographically by character code, and the sort is stable.
  Keys that are not all strings are not modelled.
\<close>

fun is_str :: "pyval \<Rightarrow> bool" where
  "is_str (PStr s) = True"
| "is_str _ = False"

text \<open>The sort key of a record whose \<^verbatim>\<open>d["day"]\<close> is a string.\<close>

definition day_string :: "pyval \<Rightarrow> string" where
  "day_string d = (case py_subscript d ''day'' of Inr (PStr s) \<Rightarrow> s | _ \<Rightarrow> [])"

definition sorted_by_day :: "pyval \<Rightarrow> error + pyval list" where
  "sorted_by_day data =
     (case py_iter data of
        Inl e \<Rightarrow> Inl e
      | Inr ds \<Rightarrow>
          (case try_map (\<lambda>d. py_subscript d ''day'') ds of
             Inl e \<Rightarrow> Inl e
           | Inr keys \<Rightarrow>
               if length ds \<le> 1 then Inr ds
               else if list_all is_str keys then Inr (sort_key day_string ds)
               else Inl NotModelled))"

text \<open>
  \<^verbatim>\<open>if not token or token.startswith(DUMMY)\<close>: a falsy token takes the branch; a truthy
  one that is not a string has no \<^verbatim>\<open>startswith\<close>.
\<close>

definition use_sample :: "pyval \<Rightarrow> error + bool" where
  "use_sample token =
     (if \<not> truthy token then Inr True
      else (case token of PStr s \<Rightarrow> Inr (startswith s DUMMY) | _ \<Rightarrow> Inl AttributeError))"

definition fetch_sleep_json :: "env \<Rightarrow> pyval \<Rightarrow> int \<Rightarrow> pyval step" where
  "fetch_sleep_json w token days =
     then_do (pure_step (use_sample token)) (\<lambda>offline.
       if offline then
         then_do (emit InfoSampleData) (\<lambda>_.
         then_do (emit OpenSample) (\<lambda>_.
         then_do (pure_step (sample_file w)) (\<lambda>doc.
         pure_step (py_subscript doc ''data''))))
       else
         (case token of
            PStr tok \<Rightarrow>
              (let end = today w; start = end - days in
               then_do (emit (HttpGet OURA_SLEEP_URL tok start end)) (\<lambda>_.
               then_do (pure_step (oura_get w tok start end)) (\<lambda>body.
               then_do (pure_step (py_get body ''data'' (PList []))) (\<lambda>data.
               then_do (pure_step (sorted_by_day data)) (\<lambda>recs.
               pure_step (Inr (PList recs)))))))
          | _ \<Rightarrow> pure_step (Inl AttributeError)))"

section \<open>Dispatch: \<^verbatim>\<open>send_qualtrics_survey\<close>\<close>

text \<open>
  The payloads carry what they take from the configuration (mailing list id, contact id
  keyed by the patient id, survey id); the fixed texts and the timestamps are left out.
  \<^verbatim>\<open>requests.post\<close> is called without \<^verbatim>\<open>raise_for_status\<close>.
\<close>

definition send_qualtrics_survey :: "env \<Rightarrow> pyval \<Rightarrow> string \<Rightarrow> bool \<Rightarrow> unit step" where
  "send_qualtrics_survey w cfg patient_id dry =
     then_do (pure_step (py_get cfg ''qualtrics'' (PDict []))) (\<lambda>qt.
     then_do (pure_step (py_get qt ''api_token'' (PStr DUMMY))) (\<lambda>api_token.
       (case api_token of
          PStr tok \<Rightarrow>
            (let dry = (if startswith tok DUMMY then True else dry) in
             then_do (pure_step (py_get qt ''mailinglist_id'' (PStr []))) (\<lambda>ml.
             then_do (pure_step (py_get qt patient_id (PStr []))) (\<lambda>contact.
             then_do (pure_step (py_get qt ''survey_id'' (PStr []))) (\<lambda>survey.
             then_do
               (if dry then emit DryRunEmail
                else
                  then_do (emit SendingEmail) (\<lambda>_.
                  then_do (emit (HttpPost QUALTRICS_DIST_URL tok (EmailPayload ml contact survey))) (\<lambda>_.
                  pure_step
                    (case qualtrics_post w QUALTRICS_DIST_URL tok (EmailPayload ml contact survey) of
                       Some e \<Rightarrow> Inl e
                     | None \<Rightarrow> Inr ()))))
               (\<lambda>_.
                  if dry then emit DryRunSMS
                  else
                    then_do (emit SendingSMS) (\<lambda>_.
                    then_do (emit (HttpPost QUALTRICS_SMS_URL tok (SmsPayload ml contact survey))) (\<lambda>_.
                    pure_step
                      (case qualtrics_post w QUALTRICS_SMS_URL tok (SmsPayload ml contact survey) of
                         Some e \<Rightarrow> Inl e
                       | None \<Rightarrow> Inr ()))))))))
        | _ \<Rightarrow> pure_step (Inl AttributeError))))"

section \<open>The pipeline: \<^verbatim>\<open>run_once\<close>\<close>

text \<open>
  Lines 168-172, the metrics \<^verbatim>\<open>run_once\<close> computes and prints for itself before it calls
  \<^verbatim>\<open>should_trigger\<close>. The result is the triple \<^verbatim>\<open>(last, baseline, pct_change)\<close>.
\<close>

definition report_metrics :: "real list \<Rightarrow> (real \<times> real \<times> real) step" where
  "report_metrics hours =
     then_do (pure_step (index_last hours)) (\<lambda>h.
     then_do (emit (ReportLastNight h)) (\<lambda>_.
     then_do (emit (ReportPrevious (butlast hours))) (\<lambda>_.
     then_do (pure_step (index_last hours)) (\<lambda>lst.
     then_do (pure_step (mean (butlast hours))) (\<lambda>baseline.
     then_do (pure_step (if baseline \<noteq> 0
                         then (case py_div \<bar>lst - baseline\<bar> baseline of
                                 Inl e \<Rightarrow> Inl e
                               | Inr q \<Rightarrow> Inr (q * 100))
                         else Inr 0)) (\<lambda>pct_change.
     then_do (emit (ReportPctChange pct_change)) (\<lambda>_.
     pure_step (Inr (lst, baseline, pct_change)))))))))"

text \<open>The body of the loop of \<^verbatim>\<open>run_once\<close>, for one \<^verbatim>\<open>(patient_id, token)\<close> item.\<close>

definition process_patient ::
  "env \<Rightarrow> pyval \<Rightarrow> bool \<Rightarrow> real \<Rightarrow> real \<Rightarrow> string \<times> pyval \<Rightarrow> unit step" where
  "process_patient w cfg dry_flag deviation min_hours item =
     (case item of (patient_id, token) \<Rightarrow>
        then_do (emit (Processing patient_id)) (\<lambda>_.
        then_do (fetch_sleep_json w token 8) (\<lambda>recs.
        then_do (pure_step (py_iter recs)) (\<lambda>records.
        then_do (pure_step (nightly_totals records)) (\<lambda>hours.
        then_do (report_metrics hours) (\<lambda>_.
        then_do (pure_step (should_trigger hours deviation min_hours)) (\<lambda>r.
          if ret_truthy r then
            then_do (emit TriggerMet) (\<lambda>_.
            send_qualtrics_survey w cfg patient_id dry_flag)
          else emit NoTrigger)))))))"

text \<open>The \<^verbatim>\<open>for\<close> loop: there is no \<^verbatim>\<open>try\<close> around its body.\<close>

fun run_patients ::
  "env \<Rightarrow> pyval \<Rightarrow> bool \<Rightarrow> real \<Rightarrow> real \<Rightarrow> (string \<times> pyval) list \<Rightarrow> unit step" where
  "run_patients w cfg dry_flag deviation min_hours [] = pure_step (Inr ())"
| "run_patients w cfg dry_flag deviation min_hours (item # items) =
     then_do (process_patient w cfg dry_flag deviation min_hours item) (\<lambda>_.
     run_patients w cfg dry_flag deviation min_hours items)"

text \<open>\<^verbatim>\<open>tokens.items()\<close>\<close>

fun py_items :: "pyval \<Rightarrow> error + (string \<times> pyval) list" where
  "py_items (PDict kvs) = Inr kvs"
| "py_items _ = Inl AttributeError"

text \<open>\<^verbatim>\<open>tokens = cfg.get("oura_api_tokens", {}) or {"sample": DUMMY}\<close>\<close>

definition run_once :: "env \<Rightarrow> bool \<Rightarrow> real \<Rightarrow> real \<Rightarrow> unit step" where
  "run_once w dry_flag deviation min_hours =
     then_do (load_config w) (\<lambda>cfg.
     then_do (pure_step (py_get cfg ''oura_api_tokens'' (PDict []))) (\<lambda>t.
       (let tokens = (if truthy t then t else PDict [(''sample'', PStr DUMMY)]) in
        then_do (pure_step (py_items tokens)) (\<lambda>items.
        run_patients w cfg dry_flag deviation min_hours items))))"

section \<open>The claims' words, and example inputs\<close>

text \<open>
  A credential that is absent (\<^verbatim>\<open>None\<close>), empty, or starts with the placeholder, in the
  words of the specification.
\<close>

fun is_placeholder :: "pyval \<Rightarrow> bool" where
  "is_placeholder PNone = True"
| "is_placeholder (PStr s) = (s = [] \<or> startswith s DUMMY)"
| "is_placeholder _ = False"

text \<open>A real credential: a string, not empty, not starting with the placeholder.\<close>

fun is_live_token :: "pyval \<Rightarrow> bool" where
  "is_live_token (PStr s) = (s \<noteq> [] \<and> \<not> startswith s DUMMY)"
| "is_live_token _ = False"

text \<open>
  A configuration whose survey-provider api token is the placeholder, or is absent (no
  \<^verbatim>\<open>qualtrics\<close> block, or a block without \<^verbatim>\<open>api_token\<close>).
\<close>

definition survey_token_placeholder :: "pyval \<Rightarrow> bool" where
  "survey_token_placeholder cfg =
     (case cfg of
        PDict c \<Rightarrow>
          (case map_of c ''qualtrics'' of
             None \<Rightarrow> True
           | Some (PDict q) \<Rightarrow>
               (case map_of q ''api_token'' of
                  None \<Rightarrow> True
                | Some (PStr s) \<Rightarrow> startswith s DUMMY
                | Some _ \<Rightarrow> False)
           | Some _ \<Rightarrow> False)
      | _ \<Rightarrow> False)"

text \<open>A record of one night, as the provider returns it.\<close>

definition night :: "string \<Rightarrow> int \<Rightarrow> pyval" where
  "night day secs =
     PDict [(''day'', PStr day), (''type'', PStr ''long_sleep''),
            (''total_sleep_duration'', PInt secs)]"

text \<open>
  An example world: the sample file holds 5 nights; the provider answers the token
  \<open>tok8\<close> with 8 nights out of order, \<open>tok1\<close> with a single night, \<open>tok0\<close> with no
  night, and refuses any other token. The configuration lists the patients \<open>bob\<close>
  with \<open>tok8\<close>, \<open>alice\<close> with the placeholder and \<open>carol\<close> with \<open>tok8\<close>, in this
  order, and a placeholder survey token.
\<close>

definition demo_sample :: pyval where
  "demo_sample =
     PDict [(''data'', PList [night ''2025-06-01'' 25200, night ''2025-06-02'' 25200,
                              night ''2025-06-03'' 25200, night ''2025-06-04'' 25200,
                              night ''2025-06-05'' 25200])]"

definition demo_unsorted :: "pyval list" where
  "demo_unsorted =
     [night ''2025-06-08'' 34200, night ''2025-06-02'' 25200,
      night ''2025-06-01'' 25200, night ''2025-06-04'' 25200,
      night ''2025-06-03'' 25200, night ''2025-06-07'' 25200,
      night ''2025-06-06'' 25200, night ''2025-06-05'' 25200]"

definition demo_oura :: "string \<Rightarrow> int \<Rightarrow> int \<Rightarrow> error + pyval" where
  "demo_oura tok start end =
     (if tok = ''tok8'' then Inr (PDict [(''data'', PList demo_unsorted)])
      else if tok = ''tok1'' then Inr (PDict [(''data'', PList [night ''2025-06-08'' 25200])])
      else if tok = ''tok0'' then Inr (PDict [])
      else Inl RequestError)"

definition demo_cfg :: pyval where
  "demo_cfg =
     PDict [(''oura_api_tokens'',
             PDict [(''bob'', PStr ''tok8''), (''alice'', PStr ''xxx''), (''carol'', PStr ''tok8'')]),
            (''qualtrics'', PDict [(''api_token'', PStr ''xxx'')])]"

definition demo_env :: env where
  "demo_env =
     \<lparr>config_file = Some (Inr demo_cfg),
      sample_file = Inr demo_sample,
      today = 739410,
      oura_get = demo_oura,
      qualtrics_post = (\<lambda>url tok p. None)\<rparr>"

section \<open>Facts about the helpers\<close>

lemma index_last_Inr: "xs \<noteq> [] \<Longrightarrow> index_last xs = Inr (last xs)"
  by (cases xs) simp_all

lemma mean_Inr: "xs \<noteq> [] \<Longrightarrow> mean xs = Inr (sum_list xs / real (length xs))"
  by (cases xs) simp_all

lemma butlast_nonempty: "2 \<le> length xs \<Longrightarrow> butlast xs \<noteq> []"
  by (cases xs rule: rev_cases) auto

text \<open>What lines 90-91 compute on two nights or more.\<close>

lemma trigger_locals_eq:
  assumes "2 \<le> length hours"
  shows "trigger_locals hours =
           Inr (last hours,
                sum_list (butlast hours) / real (length hours - 1),
                (if sum_list (butlast hours) / real (length hours - 1) \<noteq> 0
                 then \<bar>last hours - sum_list (butlast hours) / real (length hours - 1)\<bar>
                        / (sum_list (butlast hours) / real (length hours - 1)) * 100
                 else 0))"
proof -
  from assms have ne: "hours \<noteq> []" by auto
  have bne: "butlast hours \<noteq> []" by (rule butlast_nonempty [OF assms])
  show ?thesis
    unfolding trigger_locals_def
    by (simp add: index_last_Inr [OF ne] mean_Inr [OF bne] py_div_def)
qed

lemma then_do_pure_Inr [simp]: "then_do (pure_step (Inr x)) f = f x"
  by (cases "f x") (simp add: pure_step_def)

lemma then_do_pure_Inl [simp]: "then_do (pure_step (Inl e)) f = ([], Inl e)"
  by (simp add: pure_step_def)

lemma then_do_emit [simp]: "then_do (emit ev) f = (ev # fst (f ()), snd (f ()))"
  by (cases "f ()") (simp add: emit_def)

lemma then_do_assoc: "then_do (then_do s f) g = then_do s (\<lambda>x. then_do (f x) g)"
proof (cases s)
  case (Pair evs r)
  show ?thesis
  proof (cases r)
    case (Inl e)
    with Pair show ?thesis by simp
  next
    case (Inr x)
    with Pair show ?thesis
      by (cases "f x"; cases "snd (f x)"; cases "g (projr (snd (f x)))") auto
  qed
qed

lemma fst_then_do_Inl: "snd s = Inl e \<Longrightarrow> then_do s f = (fst s, Inl e)"
  by (cases s) simp

lemma then_do_Inr: "snd s = Inr x \<Longrightarrow> then_do s f = (fst s @ fst (f x), snd (f x))"
  by (cases s; cases "f x") simp

text \<open>What lines 168-172 print and compute on two nights or more.\<close>

lemma report_metrics_eq:
  assumes "2 \<le> length hours"
  shows "report_metrics hours =
           ([ReportLastNight (last hours), ReportPrevious (butlast hours),
             ReportPctChange
               (if sum_list (butlast hours) / real (length hours - 1) \<noteq> 0
                then \<bar>last hours - sum_list (butlast hours) / real (length hours - 1)\<bar>
                       / (sum_list (butlast hours) / real (length hours - 1)) * 100
                else 0)],
            Inr (last hours,
                 sum_list (butlast hours) / real (length hours - 1),
                 (if sum_list (butlast hours) / real (length hours - 1) \<noteq> 0
                  then \<bar>last hours - sum_list (butlast hours) / real (length hours - 1)\<bar>
                         / (sum_list (butlast hours) / real (length hours - 1)) * 100
                  else 0)))"
proof -
  from assms have ne: "hours \<noteq> []" by auto
  have bne: "butlast hours \<noteq> []" by (rule butlast_nonempty [OF assms])
  show ?thesis
    unfolding report_metrics_def
    by (simp add: index_last_Inr [OF ne] mean_Inr [OF bne] py_div_def pure_step_def)
qed

section \<open>The trigger rule\<close>

text \<open>
  C1, as stated, fails: with seven nights of 7 hours, a last night of 7 hours, a deviation
  threshold of -1 and a floor of 4, the percent change is 0, which is above the threshold,
  so the plain OR is true; \<^verbatim>\<open>should_trigger\<close> returns the number 0, which is false.
\<close>

theorem should_trigger_plain_or_counterexample:
  "trigger_locals [7, 7, 7, 7, 7, 7, 7, 7] = Inr (7, 7, 0)
   \<and> ((7::real) < 4 \<or> (0::real) > - 1)
   \<and> should_trigger [7, 7, 7, 7, 7, 7, 7, 7] (- 1) 4 = Inr (RNum 0)
   \<and> triggered [7, 7, 7, 7, 7, 7, 7, 7] (- 1) 4 = Inr False"
  by (simp add: triggered_def should_trigger_def trigger_locals_def py_div_def trigger_expr_def)

text \<open>
  C1, amended: on a series of exactly 8 values the decision is true if and only if the
  last value is strictly below \<open>min_hours\<close>, or the percent change is strictly greater
  than \<open>deviation_pct\<close> and is not zero. When the deviation threshold is not negative this
  is the plain OR of the two conditions.
\<close>

theorem should_trigger_decision:
  assumes "length hours = 8"
  shows "\<exists>baseline pct_change.
           trigger_locals hours = Inr (last hours, baseline, pct_change)
           \<and> triggered hours deviation_pct min_hours =
               Inr (last hours < min_hours \<or> (pct_change > deviation_pct \<and> pct_change \<noteq> 0))
           \<and> (0 \<le> deviation_pct \<longrightarrow>
                triggered hours deviation_pct min_hours =
                  Inr (last hours < min_hours \<or> pct_change > deviation_pct))"
proof -
  from assms have len: "2 \<le> length hours" by simp
  obtain b p where loc: "trigger_locals hours = Inr (last hours, b, p)"
    using trigger_locals_eq [OF len] by blast
  have dec: "triggered hours deviation_pct min_hours =
               Inr (last hours < min_hours \<or> (p > deviation_pct \<and> p \<noteq> 0))"
    using assms loc by (simp add: triggered_def should_trigger_def trigger_expr_def)
  have "0 \<le> deviation_pct \<longrightarrow>
          (p > deviation_pct \<and> p \<noteq> 0) = (p > deviation_pct)"
    by auto
  with loc dec show ?thesis by auto
qed

theorem should_trigger_decision_witness:
  "\<exists>baseline pct_change.
     trigger_locals [7, 7, 7, 7, 7, 7, 7, 9.5] = Inr (last [7, 7, 7, 7, 7, 7, 7, 9.5], baseline, pct_change)
     \<and> triggered [7, 7, 7, 7, 7, 7, 7, 9.5] 25 4 =
         Inr (last [7, 7, 7, 7, 7, 7, 7, 9.5] < (4::real) \<or> (pct_change > 25 \<and> pct_change \<noteq> 0))
     \<and> ((0::real) \<le> 25 \<longrightarrow>
          triggered [7, 7, 7, 7, 7, 7, 7, 9.5] 25 4 =
            Inr (last [7, 7, 7, 7, 7, 7, 7, 9.5] < (4::real) \<or> pct_change > 25))"
  using should_trigger_decision [of "[7, 7, 7, 7, 7, 7, 7, 9.5]" 25 4] by simp

text \<open>
  C3: \<^verbatim>\<open>should_trigger\<close> raises the insufficient-data \<^verbatim>\<open>ValueError\<close> on every series of
  fewer than 8 entries, whatever the entries and the thresholds are (nothing is read from
  them: not the last element, not the mean); on every series of 8 entries or more it
  returns a value. So it raises that error exactly when the series is shorter than 8.
\<close>

theorem should_trigger_insufficient_data:
  "(length hours < 8 \<longrightarrow> should_trigger hours deviation_pct min_hours = Inl ValueError)
   \<and> (8 \<le> length hours \<longrightarrow> (\<exists>r. should_trigger hours deviation_pct min_hours = Inr r))
   \<and> (should_trigger hours deviation_pct min_hours = Inl ValueError \<longleftrightarrow> length hours < 8)"
proof -
  have short: "length hours < 8 \<Longrightarrow> should_trigger hours deviation_pct min_hours = Inl ValueError"
    by (simp add: should_trigger_def)
  have long: "\<exists>r. should_trigger hours deviation_pct min_hours = Inr r" if "8 \<le> length hours"
  proof -
    from that have "2 \<le> length hours" by simp
    from trigger_locals_eq [OF this] that show ?thesis
      by (simp add: should_trigger_def)
  qed
  from short long show ?thesis
    by (metis Inl_Inr_False not_le)
qed

theorem should_trigger_insufficient_data_witness:
  "should_trigger [7, 7, 7, 7, 7] 25 4 = Inl ValueError
   \<and> should_trigger [] 25 4 = Inl ValueError
   \<and> (\<exists>r. should_trigger [7, 7, 7, 7, 7, 7, 7, 7.2] 25 4 = Inr r)"
  using should_trigger_insufficient_data [of "[7, 7, 7, 7, 7]" 25 4]
        should_trigger_insufficient_data [of "[]" 25 4]
        should_trigger_insufficient_data [of "[7, 7, 7, 7, 7, 7, 7, 7.2]" 25 4]
  by simp

text \<open>
  C6: on every series of 8 values lines 90-91 return (no division by zero): the baseline
  is the mean of the first 7 values, and the percent change is 0 when the baseline is
  exactly 0. On a series of nightly hours, which are not negative, the baseline is not
  negative, and the percent change is \<open>|last - baseline| / baseline * 100\<close> when the
  baseline is greater than 0, and 0 otherwise.
\<close>

theorem pct_change_defined:
  assumes "length hours = 8"
  shows "\<exists>baseline pct_change.
           trigger_locals hours = Inr (last hours, baseline, pct_change)
           \<and> baseline = sum_list (butlast hours) / 7
           \<and> (baseline = 0 \<longrightarrow> pct_change = 0)
           \<and> ((\<forall>h \<in> set hours. 0 \<le> h) \<longrightarrow>
                 0 \<le> baseline
                 \<and> (baseline > 0 \<longrightarrow> pct_change = \<bar>last hours - baseline\<bar> / baseline * 100)
                 \<and> (\<not> baseline > 0 \<longrightarrow> pct_change = 0))"
proof -
  define b where "b = sum_list (butlast hours) / 7"
  define p where "p = (if b \<noteq> 0 then \<bar>last hours - b\<bar> / b * 100 else 0)"
  from assms have len: "2 \<le> length hours" by simp
  from assms have seven: "real (length hours - 1) = 7" by simp
  have loc: "trigger_locals hours = Inr (last hours, b, p)"
    using trigger_locals_eq [OF len] unfolding seven b_def p_def .
  have zero: "b = 0 \<longrightarrow> p = 0" by (simp add: p_def)
  have nonneg: "0 \<le> b \<and> (b > 0 \<longrightarrow> p = \<bar>last hours - b\<bar> / b * 100) \<and> (\<not> b > 0 \<longrightarrow> p = 0)"
    if hs: "\<forall>h \<in> set hours. 0 \<le> h"
  proof -
    have "0 \<le> sum_list (butlast hours)"
    proof (rule sum_list_nonneg)
      fix x assume "x \<in> set (butlast hours)"
      then have "x \<in> set hours" by (rule in_set_butlastD)
      with hs show "0 \<le> x" by simp
    qed
    then have b0: "0 \<le> b" by (simp add: b_def)
    have pos: "b > 0 \<longrightarrow> p = \<bar>last hours - b\<bar> / b * 100" by (simp add: p_def)
    from b0 have "\<not> b > 0 \<longrightarrow> b = 0" by simp
    with zero have "\<not> b > 0 \<longrightarrow> p = 0" by blast
    with b0 pos show ?thesis by blast
  qed
  from loc b_def zero nonneg show ?thesis by blast
qed

theorem pct_change_defined_witness:
  "trigger_locals [0, 0, 0, 0, 0, 0, 0, 5] = Inr (5, 0, 0)
   \<and> trigger_locals [7, 7, 7, 7, 7, 7, 7, 9.5] = Inr (9.5, 7, 250 / 7)"
proof -
  have l0: "length [0, 0, 0, 0, 0, 0, 0, 5 :: real] = 8" by simp
  have l7: "length [7, 7, 7, 7, 7, 7, 7, 9.5 :: real] = 8" by simp
  have nn: "\<forall>h \<in> set [7, 7, 7, 7, 7, 7, 7, 9.5 :: real]. 0 \<le> h" by simp
  from pct_change_defined [OF l0] obtain b p where
    t0: "trigger_locals [0, 0, 0, 0, 0, 0, 0, 5] = Inr (last [0, 0, 0, 0, 0, 0, 0, 5], b, p)"
    and b0: "b = sum_list (butlast [0, 0, 0, 0, 0, 0, 0, 5]) / 7"
    and p0: "b = 0 \<longrightarrow> p = 0"
    by blast
  from b0 have "b = 0" by simp
  with p0 t0 have first: "trigger_locals [0, 0, 0, 0, 0, 0, 0, 5] = Inr (5, 0, 0)" by simp
  from pct_change_defined [OF l7] obtain c q where
    t7: "trigger_locals [7, 7, 7, 7, 7, 7, 7, 9.5] = Inr (last [7, 7, 7, 7, 7, 7, 7, 9.5], c, q)"
    and c7: "c = sum_list (butlast [7, 7, 7, 7, 7, 7, 7, 9.5]) / 7"
    and q7: "(\<forall>h \<in> set [7, 7, 7, 7, 7, 7, 7, 9.5 :: real]. 0 \<le> h) \<longrightarrow>
               0 \<le> c
               \<and> (c > 0 \<longrightarrow> q = \<bar>last [7, 7, 7, 7, 7, 7, 7, 9.5] - c\<bar> / c * 100)
               \<and> (\<not> c > 0 \<longrightarrow> q = 0)"
    by blast
  from c7 have c: "c = 7" by simp
  from q7 nn have "c > 0 \<longrightarrow> q = \<bar>last [7, 7, 7, 7, 7, 7, 7, 9.5] - c\<bar> / c * 100" by blast
  with c have "q = 250 / 7" by simp
  with c t7 have second: "trigger_locals [7, 7, 7, 7, 7, 7, 7, 9.5] = Inr (9.5, 7, 250 / 7)" by simp
  from first second show ?thesis by (intro conjI)
qed

text \<open>
  C8: on a series of 8 values whose last value is strictly below \<open>min_hours\<close>,
  \<^verbatim>\<open>should_trigger\<close> returns \<^verbatim>\<open>True\<close>, whatever the other seven values and the deviation
  threshold are.
\<close>

theorem floor_fires_alone:
  assumes "length hours = 8" and "last hours < min_hours"
  shows "should_trigger hours deviation_pct min_hours = Inr (RBool True)
         \<and> triggered hours deviation_pct min_hours = Inr True"
proof -
  from assms(1) have len: "2 \<le> length hours" by simp
  show ?thesis
    using assms trigger_locals_eq [OF len]
    by (simp add: triggered_def should_trigger_def trigger_expr_def)
qed

theorem floor_fires_alone_witness:
  "length [7, 7, 7, 7, 7, 7, 7, 3.5 :: real] = 8
   \<and> last [7, 7, 7, 7, 7, 7, 7, 3.5] < (4::real)
   \<and> should_trigger [7, 7, 7, 7, 7, 7, 7, 3.5] 25 4 = Inr (RBool True)
   \<and> triggered [7, 7, 7, 7, 7, 7, 7, 3.5] 25 4 = Inr True"
  using floor_fires_alone [of "[7, 7, 7, 7, 7, 7, 7, 3.5]" 4 25] by simp

text \<open>
  C10: on a series of 8 values, the triple (last, baseline, percent change) that
  \<^verbatim>\<open>run_once\<close> computes for its report is the triple \<^verbatim>\<open>should_trigger\<close> computes, and both
  computations return.
\<close>

theorem metrics_agree:
  assumes "length hours = 8"
  shows "snd (report_metrics hours) = trigger_locals hours
         \<and> (\<exists>t. trigger_locals hours = Inr t)"
proof -
  from assms have len: "2 \<le> length hours" by simp
  show ?thesis
    by (simp add: report_metrics_eq [OF len] trigger_locals_eq [OF len])
qed

theorem metrics_agree_witness:
  "length [7, 7, 7, 7, 7, 7, 7, 9.5 :: real] = 8
   \<and> snd (report_metrics [7, 7, 7, 7, 7, 7, 7, 9.5]) = trigger_locals [7, 7, 7, 7, 7, 7, 7, 9.5]
   \<and> (\<exists>t. trigger_locals [7, 7, 7, 7, 7, 7, 7, 9.5] = Inr t)"
  using metrics_agree [of "[7, 7, 7, 7, 7, 7, 7, 9.5]"] by simp

section \<open>Normalisation\<close>

lemma try_map_Inr:
  "(\<And>x. x \<in> set xs \<Longrightarrow> f x = Inr (g x)) \<Longrightarrow> try_map f xs = Inr (map g xs)"
  by (induction xs) simp_all

text \<open>
  Where every qualifying record carries a numeric duration, \<^verbatim>\<open>nightly_totals\<close> returns
  the last 8 (or all, when there are fewer) of the qualifying durations divided by 3600,
  in input order.
\<close>

lemma nightly_totals_numeric:
  assumes "\<And>r. r \<in> set records \<Longrightarrow> qualifies r \<Longrightarrow> duration_hours r = Inr (h r)"
  shows "nightly_totals records = Inr (last8 (map h (filter qualifies records)))"
proof -
  have "try_map duration_hours (filter qualifies records) = Inr (map h (filter qualifies records))"
    by (rule try_map_Inr) (simp add: assms)
  then show ?thesis by (simp add: nightly_totals_def)
qed

lemma length_last8: "length (last8 xs) = min 8 (length xs)"
  by (simp add: last8_def)

lemma last8_short: "length xs \<le> 8 \<Longrightarrow> last8 xs = xs"
  by (simp add: last8_def)

text \<open>
  C7: a record that is a dictionary with type \<^verbatim>\<open>long_sleep\<close> and a duration field
  holding \<^verbatim>\<open>None\<close> passes the filter, and the division raises \<^verbatim>\<open>TypeError\<close>: the
  malformed record is neither excluded nor harmless.
\<close>

theorem nightly_totals_null_duration:
  "qualifies (PDict [(''type'', PStr ''long_sleep''), (''total_sleep_duration'', PNone)])
   \<and> nightly_totals [PDict [(''type'', PStr ''long_sleep''), (''total_sleep_duration'', PNone)]]
       = Inl TypeError"
  by (simp add: nightly_totals_def)

section \<open>Dispatch\<close>

lemma fst_pure_step [simp]: "fst (pure_step r) = []"
  by (simp add: pure_step_def)

lemma snd_pure_step [simp]: "snd (pure_step r) = r"
  by (simp add: pure_step_def)

lemma fst_emit [simp]: "fst (emit ev) = [ev]"
  by (simp add: emit_def)

lemma snd_emit [simp]: "snd (emit ev) = Inr ()"
  by (simp add: emit_def)

lemma then_do_pure_case:
  "then_do (pure_step r) f = (case r of Inl e \<Rightarrow> ([], Inl e) | Inr x \<Rightarrow> f x)"
  by (cases r) simp_all

lemma startswith_DUMMY: "startswith DUMMY DUMMY"
  by (simp add: startswith_def)

lemma send_dry:
  assumes "py_get cfg ''qualtrics'' (PDict []) = Inr qt"
    and "py_get qt ''api_token'' (PStr DUMMY) = Inr (PStr tok)"
    and "startswith tok DUMMY \<or> dry"
  shows "send_qualtrics_survey w cfg patient_id dry = ([DryRunEmail, DryRunSMS], Inr ())"
proof -
  from assms(2) obtain q where qt: "qt = PDict q" by (cases qt) simp_all
  from assms(3) have d: "(if startswith tok DUMMY then True else dry) = True" by auto
  show ?thesis
    unfolding send_qualtrics_survey_def
    by (simp add: assms(1) assms(2) d) (simp add: qt)
qed

text \<open>
  C4: when the survey-provider api token of the configuration is the placeholder, or is
  absent, \<^verbatim>\<open>send_qualtrics_survey\<close> only prints the two dry-run lines and returns,
  whatever the patient id and the caller's \<open>dry\<close> flag are: no request is made.
\<close>

theorem placeholder_forces_dry_run:
  assumes "survey_token_placeholder cfg"
  shows "send_qualtrics_survey w cfg patient_id dry = ([DryRunEmail, DryRunSMS], Inr ())
         \<and> list_all (\<lambda>ev. \<not> is_network ev) (fst (send_qualtrics_survey w cfg patient_id dry))"
proof -
  from assms obtain c where cfg: "cfg = PDict c"
    by (cases cfg) (simp_all add: survey_token_placeholder_def)
  have "\<exists>qt tok. py_get cfg ''qualtrics'' (PDict []) = Inr qt
                 \<and> py_get qt ''api_token'' (PStr DUMMY) = Inr (PStr tok)
                 \<and> startswith tok DUMMY"
  proof (cases "map_of c ''qualtrics''")
    case None
    with cfg show ?thesis by (simp add: startswith_DUMMY)
  next
    case (Some x)
    with assms cfg obtain q where x: "x = PDict q"
      by (cases x) (simp_all add: survey_token_placeholder_def)
    show ?thesis
    proof (cases "map_of q ''api_token''")
      case None
      with cfg Some x show ?thesis by (simp add: startswith_DUMMY)
    next
      case inner: (Some y)
      with assms cfg Some x obtain s where "y = PStr s" "startswith s DUMMY"
        by (cases y) (simp_all add: survey_token_placeholder_def)
      with cfg Some x inner show ?thesis by simp
    qed
  qed
  then have "send_qualtrics_survey w cfg patient_id dry = ([DryRunEmail, DryRunSMS], Inr ())"
    by (auto simp: send_dry)
  then show ?thesis by simp
qed

theorem placeholder_forces_dry_run_witness:
  "survey_token_placeholder demo_cfg
   \<and> send_qualtrics_survey demo_env demo_cfg ''bob'' False = ([DryRunEmail, DryRunSMS], Inr ())
   \<and> list_all (\<lambda>ev. \<not> is_network ev) (fst (send_qualtrics_survey demo_env demo_cfg ''bob'' False))"
proof -
  have h: "survey_token_placeholder demo_cfg"
    by (simp add: survey_token_placeholder_def demo_cfg_def startswith_def DUMMY_def)
  from h placeholder_forces_dry_run [OF h, of demo_env "''bob''" False] show ?thesis by simp
qed

section \<open>Acquisition\<close>

lemma sorted_map_short: "length xs \<le> 1 \<Longrightarrow> sorted (map f xs)"
  by (cases xs) auto

lemma sorted_by_day_Inr:
  assumes "sorted_by_day data = Inr recs"
  shows "\<exists>ds. py_iter data = Inr ds
              \<and> sorted (map day_string recs)
              \<and> mset recs = mset ds
              \<and> (\<forall>k. filter (\<lambda>d. day_string d = k) recs = filter (\<lambda>d. day_string d = k) ds)"
proof -
  from assms obtain ds where it: "py_iter data = Inr ds"
    by (auto simp: sorted_by_day_def split: sum.splits)
  from assms it have "recs = ds \<and> length ds \<le> 1 \<or> recs = sort_key day_string ds"
    by (auto simp: sorted_by_day_def split: sum.splits if_splits)
  then show ?thesis
  proof
    assume "recs = ds \<and> length ds \<le> 1"
    with it show ?thesis by (simp add: sorted_map_short)
  next
    assume "recs = sort_key day_string ds"
    with it show ?thesis by (simp add: sort_key_stable)
  qed
qed

text \<open>A response whose records all carry a string \<^verbatim>\<open>day\<close> is sorted without error.\<close>

lemma sorted_by_day_total:
  assumes "\<And>d. d \<in> set ds \<Longrightarrow> \<exists>kvs s. d = PDict kvs \<and> map_of kvs ''day'' = Some (PStr s)"
  shows "\<exists>recs. sorted_by_day (PList ds) = Inr recs"
proof -
  have keys: "try_map (\<lambda>d. py_subscript d ''day'') ds = Inr (map (\<lambda>d. PStr (day_string d)) ds)"
  proof (rule try_map_Inr)
    fix d assume "d \<in> set ds"
    from assms [OF this] show "py_subscript d ''day'' = Inr (PStr (day_string d))"
      by (auto simp: day_string_def)
  qed
  have "list_all is_str (map (\<lambda>d. PStr (day_string d)) ds)"
    by (simp add: list_all_iff)
  with keys show ?thesis by (simp add: sorted_by_day_def)
qed

lemma fetch_offline:
  assumes "is_placeholder token"
  shows "fetch_sleep_json w token days =
           ([InfoSampleData, OpenSample],
            (case sample_file w of Inl e \<Rightarrow> Inl e | Inr doc \<Rightarrow> py_subscript doc ''data''))"
proof -
  from assms have "use_sample token = Inr True"
    by (cases token) (auto simp: use_sample_def)
  then show ?thesis
    by (cases "sample_file w") (simp_all add: fetch_sleep_json_def)
qed

lemma fetch_live_events:
  assumes "is_live_token token"
  shows "\<exists>tok. token = PStr tok
           \<and> fst (fetch_sleep_json w token days) =
               [HttpGet OURA_SLEEP_URL tok (today w - days) (today w)]"
proof -
  from assms obtain tok where t: "token = PStr tok" "tok \<noteq> []" "\<not> startswith tok DUMMY"
    by (cases token) auto
  then have "use_sample token = Inr False" by (simp add: use_sample_def)
  with t show ?thesis
    by (simp add: fetch_sleep_json_def Let_def then_do_pure_case split: sum.splits)
qed

lemma fetch_network_only_live:
  assumes "\<exists>ev \<in> set (fst (fetch_sleep_json w token days)). is_network ev"
  shows "is_live_token token"
proof (rule ccontr)
  assume not_live: "\<not> is_live_token token"
  have "list_all (\<lambda>ev. \<not> is_network ev) (fst (fetch_sleep_json w token days))"
  proof (cases "use_sample token")
    case (Inl e)
    then show ?thesis by (simp add: fetch_sleep_json_def)
  next
    case (Inr offline)
    show ?thesis
    proof (cases offline)
      case True
      with Inr show ?thesis
        by (cases "sample_file w") (simp_all add: fetch_sleep_json_def)
    next
      case False
      with Inr not_live have False
        by (cases token) (auto simp: use_sample_def split: if_splits)
      then show ?thesis ..
    qed
  qed
  with assms show False by (auto simp: list_all_iff)
qed

lemma fetch_live_sorted:
  assumes "is_live_token token" and "snd (fetch_sleep_json w token days) = Inr v"
  shows "\<exists>tok body data ds recs.
           token = PStr tok
           \<and> oura_get w tok (today w - days) (today w) = Inr body
           \<and> py_get body ''data'' (PList []) = Inr data
           \<and> py_iter data = Inr ds
           \<and> v = PList recs
           \<and> sorted (map day_string recs)
           \<and> mset recs = mset ds
           \<and> (\<forall>k. filter (\<lambda>d. day_string d = k) recs = filter (\<lambda>d. day_string d = k) ds)"
proof -
  from assms(1) obtain tok where t: "token = PStr tok" "tok \<noteq> []" "\<not> startswith tok DUMMY"
    by (cases token) auto
  then have us: "use_sample token = Inr False" by (simp add: use_sample_def)
  obtain body where b: "oura_get w tok (today w - days) (today w) = Inr body"
    using assms(2) t us
    by (cases "oura_get w tok (today w - days) (today w)")
       (simp_all add: fetch_sleep_json_def Let_def)
  obtain data where d: "py_get body ''data'' (PList []) = Inr data"
    using assms(2) t us b
    by (cases "py_get body ''data'' (PList [])")
       (simp_all add: fetch_sleep_json_def Let_def)
  obtain recs where r: "sorted_by_day data = Inr recs"
    using assms(2) t us b d
    by (cases "sorted_by_day data") (simp_all add: fetch_sleep_json_def Let_def)
  from assms(2) t us b d r have v: "v = PList recs"
    by (simp add: fetch_sleep_json_def Let_def)
  from sorted_by_day_Inr [OF r] t b d v show ?thesis by blast
qed

lemma fetch_live_total:
  assumes "is_live_token (PStr tok)"
    and "oura_get w tok (today w - days) (today w) = Inr (PDict b)"
    and "map_of b ''data'' = Some (PList ds)"
    and "\<And>d. d \<in> set ds \<Longrightarrow> \<exists>kvs s. d = PDict kvs \<and> map_of kvs ''day'' = Some (PStr s)"
  shows "\<exists>recs. snd (fetch_sleep_json w (PStr tok) days) = Inr (PList recs)"
proof -
  from assms(1) have us: "use_sample (PStr tok) = Inr False" by (simp add: use_sample_def)
  from sorted_by_day_total [OF assms(4)] obtain recs where "sorted_by_day (PList ds) = Inr recs"
    by blast
  with us assms(2) assms(3) show ?thesis
    by (simp add: fetch_sleep_json_def Let_def)
qed

text \<open>
  C5: for a credential that is \<^verbatim>\<open>None\<close>, empty or starts with the placeholder,
  \<^verbatim>\<open>fetch_sleep_json\<close> prints the offline notice, reads the sample file and returns its
  \<^verbatim>\<open>data\<close> field, with no network request. A network request is made only for a real
  credential (a nonempty string that does not start with the placeholder): then the one
  request to the sleep provider is made, and whatever is returned is the provider's
  \<^verbatim>\<open>data\<close> list reordered so that the \<^verbatim>\<open>day\<close> strings ascend (ISO dates: oldest to
  newest), records of the same day keeping their order. A response whose records all
  carry a string \<^verbatim>\<open>day\<close> is returned so.
\<close>

theorem fetch_sleep_json_offline_or_sorted:
  "(is_placeholder token \<longrightarrow>
      fetch_sleep_json w token days =
        ([InfoSampleData, OpenSample],
         (case sample_file w of Inl e \<Rightarrow> Inl e | Inr doc \<Rightarrow> py_subscript doc ''data''))
      \<and> list_all (\<lambda>ev. \<not> is_network ev) (fst (fetch_sleep_json w token days)))
   \<and> ((\<exists>ev \<in> set (fst (fetch_sleep_json w token days)). is_network ev) \<longrightarrow> is_live_token token)
   \<and> (is_live_token token \<longrightarrow>
        (\<exists>tok. token = PStr tok
           \<and> fst (fetch_sleep_json w token days) =
               [HttpGet OURA_SLEEP_URL tok (today w - days) (today w)]))
   \<and> (is_live_token token \<longrightarrow>
        (\<forall>v. snd (fetch_sleep_json w token days) = Inr v \<longrightarrow>
           (\<exists>tok body data ds recs.
              token = PStr tok
              \<and> oura_get w tok (today w - days) (today w) = Inr body
              \<and> py_get body ''data'' (PList []) = Inr data
              \<and> py_iter data = Inr ds
              \<and> v = PList recs
              \<and> sorted (map day_string recs)
              \<and> mset recs = mset ds
              \<and> (\<forall>k. filter (\<lambda>d. day_string d = k) recs = filter (\<lambda>d. day_string d = k) ds))))
   \<and> (\<forall>tok b ds.
        token = PStr tok \<and> is_live_token token
        \<and> oura_get w tok (today w - days) (today w) = Inr (PDict b)
        \<and> map_of b ''data'' = Some (PList ds)
        \<and> (\<forall>d \<in> set ds. \<exists>kvs s. d = PDict kvs \<and> map_of kvs ''day'' = Some (PStr s))
        \<longrightarrow> (\<exists>recs. snd (fetch_sleep_json w token days) = Inr (PList recs)))"
proof (intro conjI impI allI)
  assume "is_placeholder token"
  from fetch_offline [OF this]
  show "fetch_sleep_json w token days =
          ([InfoSampleData, OpenSample],
           (case sample_file w of Inl e \<Rightarrow> Inl e | Inr doc \<Rightarrow> py_subscript doc ''data''))" .
next
  assume "is_placeholder token"
  from fetch_offline [OF this, of w days]
  show "list_all (\<lambda>ev. \<not> is_network ev) (fst (fetch_sleep_json w token days))" by simp
next
  assume "\<exists>ev \<in> set (fst (fetch_sleep_json w token days)). is_network ev"
  then show "is_live_token token" by (rule fetch_network_only_live)
next
  assume "is_live_token token"
  then show "\<exists>tok. token = PStr tok
           \<and> fst (fetch_sleep_json w token days) =
               [HttpGet OURA_SLEEP_URL tok (today w - days) (today w)]"
    by (rule fetch_live_events)
next
  fix v
  assume "is_live_token token" and "snd (fetch_sleep_json w token days) = Inr v"
  then show "\<exists>tok body data ds recs.
              token = PStr tok
              \<and> oura_get w tok (today w - days) (today w) = Inr body
              \<and> py_get body ''data'' (PList []) = Inr data
              \<and> py_iter data = Inr ds
              \<and> v = PList recs
              \<and> sorted (map day_string recs)
              \<and> mset recs = mset ds
              \<and> (\<forall>k. filter (\<lambda>d. day_string d = k) recs = filter (\<lambda>d. day_string d = k) ds)"
    by (rule fetch_live_sorted)
next
  fix tok b ds
  assume a: "token = PStr tok \<and> is_live_token token
        \<and> oura_get w tok (today w - days) (today w) = Inr (PDict b)
        \<and> map_of b ''data'' = Some (PList ds)
        \<and> (\<forall>d \<in> set ds. \<exists>kvs s. d = PDict kvs \<and> map_of kvs ''day'' = Some (PStr s))"
  then have "\<exists>recs. snd (fetch_sleep_json w (PStr tok) days) = Inr (PList recs)"
    by (intro fetch_live_total [where b = b and ds = ds]) auto
  with a show "\<exists>recs. snd (fetch_sleep_json w token days) = Inr (PList recs)" by simp
qed

theorem fetch_sleep_json_offline_or_sorted_witness:
  "is_placeholder (PStr ''xxx'')
   \<and> fetch_sleep_json demo_env (PStr ''xxx'') 8 =
       ([InfoSampleData, OpenSample], py_subscript demo_sample ''data'')
   \<and> is_live_token (PStr ''tok8'')
   \<and> fst (fetch_sleep_json demo_env (PStr ''tok8'') 8) =
       [HttpGet OURA_SLEEP_URL ''tok8'' 739402 739410]
   \<and> (\<exists>recs. snd (fetch_sleep_json demo_env (PStr ''tok8'') 8) = Inr (PList recs)
              \<and> sorted (map day_string recs)
              \<and> mset recs = mset demo_unsorted)"
proof -
  have p: "is_placeholder (PStr ''xxx'')"
    by (simp add: startswith_def DUMMY_def)
  have l: "is_live_token (PStr ''tok8'')"
    by (simp add: startswith_def DUMMY_def)
  have sample: "sample_file demo_env = Inr demo_sample"
    by (simp add: demo_env_def)
  have day: "today demo_env = 739410"
    by (simp add: demo_env_def)
  have resp: "oura_get demo_env ''tok8'' (today demo_env - 8) (today demo_env) =
                Inr (PDict [(''data'', PList demo_unsorted)])"
    by (simp add: demo_env_def demo_oura_def)
  have days: "\<forall>d \<in> set demo_unsorted. \<exists>kvs s. d = PDict kvs \<and> map_of kvs ''day'' = Some (PStr s)"
    by (simp add: demo_unsorted_def night_def)
  note offline = fetch_sleep_json_offline_or_sorted [of "PStr ''xxx''" demo_env 8]
  note live = fetch_sleep_json_offline_or_sorted [of "PStr ''tok8''" demo_env 8]
  from offline [THEN conjunct1, rule_format, OF p, THEN conjunct1]
  have a: "fetch_sleep_json demo_env (PStr ''xxx'') 8 =
       ([InfoSampleData, OpenSample], py_subscript demo_sample ''data'')"
    by (simp only: sample sum.case)
  from live [THEN conjunct2, THEN conjunct2, THEN conjunct1, rule_format, OF l]
  obtain tok where "PStr ''tok8'' = PStr tok"
    and ev: "fst (fetch_sleep_json demo_env (PStr ''tok8'') 8) =
               [HttpGet OURA_SLEEP_URL tok (today demo_env - 8) (today demo_env)]"
    by blast
  then have "tok = ''tok8''" by (simp only: pyval.inject)
  with ev have b: "fst (fetch_sleep_json demo_env (PStr ''tok8'') 8) =
       [HttpGet OURA_SLEEP_URL ''tok8'' 739402 739410]"
    by (simp only: day) simp
  have "\<exists>recs. snd (fetch_sleep_json demo_env (PStr ''tok8'') 8) = Inr (PList recs)"
  proof (rule live [THEN conjunct2, THEN conjunct2, THEN conjunct2, THEN conjunct2, rule_format,
                    of "''tok8''" "[(''data'', PList demo_unsorted)]" demo_unsorted])
    have "map_of [(''data'', PList demo_unsorted)] ''data'' = Some (PList demo_unsorted)"
      by simp
    with l resp days
    show "PStr ''tok8'' = PStr ''tok8'' \<and> is_live_token (PStr ''tok8'')
          \<and> oura_get demo_env ''tok8'' (today demo_env - 8) (today demo_env) =
              Inr (PDict [(''data'', PList demo_unsorted)])
          \<and> map_of [(''data'', PList demo_unsorted)] ''data'' = Some (PList demo_unsorted)
          \<and> (\<forall>d \<in> set demo_unsorted. \<exists>kvs s. d = PDict kvs \<and> map_of kvs ''day'' = Some (PStr s))"
      by (intro conjI) (rule refl, assumption+)
  qed
  then obtain recs where
    r: "snd (fetch_sleep_json demo_env (PStr ''tok8'') 8) = Inr (PList recs)" ..
  from live [THEN conjunct2, THEN conjunct2, THEN conjunct2, THEN conjunct1, rule_format, OF l r]
  obtain tok' body data ds recs' where
    o: "oura_get demo_env tok' (today demo_env - 8) (today demo_env) = Inr body"
    and t': "PStr ''tok8'' = PStr tok'"
    and g: "py_get body ''data'' (PList []) = Inr data"
    and i: "py_iter data = Inr ds"
    and e: "PList recs = PList recs'"
    and srt: "sorted (map day_string recs')"
    and ms: "mset recs' = mset ds"
    by blast
  from t' have "tok' = ''tok8''" by (simp only: pyval.inject)
  with o resp have "body = PDict [(''data'', PList demo_unsorted)]" by simp
  with g have "data = PList demo_unsorted" by simp
  with i have "ds = demo_unsorted" by simp
  moreover from e have "recs' = recs" by simp
  ultimately have "sorted (map day_string recs) \<and> mset recs = mset demo_unsorted"
    using srt ms by simp
  with r have "\<exists>recs. snd (fetch_sleep_json demo_env (PStr ''tok8'') 8) = Inr (PList recs)
              \<and> sorted (map day_string recs)
              \<and> mset recs = mset demo_unsorted"
    by blast
  with p l a b show ?thesis by (intro conjI)
qed

section \<open>The run\<close>

lemma process_patient_after_fetch:
  assumes "fetch_sleep_json w token 8 = (evs, Inr recs)"
    and "py_iter recs = Inr records"
    and "nightly_totals records = Inr hours"
  shows "process_patient w cfg dry_flag deviation min_hours (patient_id, token) =
           (Processing patient_id # evs @
              fst (then_do (report_metrics hours) (\<lambda>_.
                   then_do (pure_step (should_trigger hours deviation min_hours)) (\<lambda>r.
                     if ret_truthy r then
                       then_do (emit TriggerMet) (\<lambda>_.
                       send_qualtrics_survey w cfg patient_id dry_flag)
                     else emit NoTrigger))),
            snd (then_do (report_metrics hours) (\<lambda>_.
                 then_do (pure_step (should_trigger hours deviation min_hours)) (\<lambda>r.
                   if ret_truthy r then
                     then_do (emit TriggerMet) (\<lambda>_.
                     send_qualtrics_survey w cfg patient_id dry_flag)
                   else emit NoTrigger))))"
  unfolding process_patient_def
  by (simp add: assms split: prod.splits)

lemma report_metrics_Nil: "report_metrics [] = ([], Inl IndexError)"
  by (simp add: report_metrics_def)

lemma report_metrics_single:
  "report_metrics [h] = ([ReportLastNight h, ReportPrevious []], Inl StatisticsError)"
  by (simp add: report_metrics_def)

text \<open>
  C9, as stated, fails for a series of length 1: the provider's answer to \<open>tok1\<close> holds
  one qualifying night, the series is \<open>[7]\<close>, and the pipeline prints the last night and
  the empty list of previous nights and then fails in \<^verbatim>\<open>statistics.mean\<close> of the empty
  list: the percent change is never reported and the error is not the insufficient-data
  error.
\<close>

theorem pipeline_one_night_counterexample:
  "nightly_totals [night ''2025-06-08'' 25200] = Inr [7]
   \<and> process_patient demo_env demo_cfg False 25 4 (''dave'', PStr ''tok1'') =
       ([Processing ''dave'', HttpGet OURA_SLEEP_URL ''tok1'' 739402 739410,
         ReportLastNight 7, ReportPrevious []],
        Inl StatisticsError)"
  by (simp add: process_patient_def fetch_sleep_json_def use_sample_def startswith_def DUMMY_def
        demo_env_def demo_oura_def sorted_by_day_def night_def nightly_totals_def last8_def
        report_metrics_single)

text \<open>
  C9, amended. Let the records be acquired and normalised to the series \<open>hours\<close>.
  If \<open>hours\<close> is empty, the pipeline fails with \<^verbatim>\<open>IndexError\<close> at the first report line,
  before anything is reported, so the insufficient-data error is not produced.
  If \<open>hours\<close> has one element, the last night and the empty list of previous nights are
  reported and the pipeline fails with \<^verbatim>\<open>StatisticsError\<close> (the mean of no value).
  If \<open>hours\<close> has 2 to 7 elements, the last night, the previous nights and the percent
  change are computed and reported, and then the insufficient-data \<^verbatim>\<open>ValueError\<close> of
  \<^verbatim>\<open>should_trigger\<close> ends the patient's processing.
\<close>

theorem pipeline_short_series:
  assumes "fetch_sleep_json w token 8 = (evs, Inr recs)"
    and "py_iter recs = Inr records"
    and "nightly_totals records = Inr hours"
  shows "(hours = [] \<longrightarrow>
            process_patient w cfg dry_flag deviation min_hours (patient_id, token) =
              (Processing patient_id # evs, Inl IndexError))
         \<and> (length hours = 1 \<longrightarrow>
            process_patient w cfg dry_flag deviation min_hours (patient_id, token) =
              (Processing patient_id # evs @ [ReportLastNight (last hours), ReportPrevious []],
               Inl StatisticsError))
         \<and> (2 \<le> length hours \<and> length hours \<le> 7 \<longrightarrow>
            (\<exists>baseline pct_change.
               trigger_locals hours = Inr (last hours, baseline, pct_change)
               \<and> process_patient w cfg dry_flag deviation min_hours (patient_id, token) =
                   (Processing patient_id # evs @
                      [ReportLastNight (last hours), ReportPrevious (butlast hours),
                       ReportPctChange pct_change],
                    Inl ValueError)))"
proof (intro conjI impI)
  assume "hours = []"
  then show "process_patient w cfg dry_flag deviation min_hours (patient_id, token) =
              (Processing patient_id # evs, Inl IndexError)"
    by (simp add: process_patient_after_fetch [OF assms] report_metrics_Nil)
next
  assume "length hours = 1"
  then obtain h where "hours = [h]"
    by (cases hours) simp_all
  then show "process_patient w cfg dry_flag deviation min_hours (patient_id, token) =
              (Processing patient_id # evs @ [ReportLastNight (last hours), ReportPrevious []],
               Inl StatisticsError)"
    by (simp add: process_patient_after_fetch [OF assms] report_metrics_single)
next
  assume len: "2 \<le> length hours \<and> length hours \<le> 7"
  then have two: "2 \<le> length hours" and short: "length hours < 8" by simp_all
  from short have err: "should_trigger hours deviation min_hours = Inl ValueError"
    by (simp add: should_trigger_def)
  obtain b p where loc: "trigger_locals hours = Inr (last hours, b, p)"
    and rep: "report_metrics hours =
                ([ReportLastNight (last hours), ReportPrevious (butlast hours), ReportPctChange p],
                 Inr (last hours, b, p))"
    using trigger_locals_eq [OF two] report_metrics_eq [OF two] by blast
  have "process_patient w cfg dry_flag deviation min_hours (patient_id, token) =
          (Processing patient_id # evs @
             [ReportLastNight (last hours), ReportPrevious (butlast hours), ReportPctChange p],
           Inl ValueError)"
    by (simp add: process_patient_after_fetch [OF assms] rep err)
  with loc show "\<exists>baseline pct_change.
               trigger_locals hours = Inr (last hours, baseline, pct_change)
               \<and> process_patient w cfg dry_flag deviation min_hours (patient_id, token) =
                   (Processing patient_id # evs @
                      [ReportLastNight (last hours), ReportPrevious (butlast hours),
                       ReportPctChange pct_change],
                    Inl ValueError)"
    by blast
qed

theorem pipeline_short_series_witness:
  "process_patient demo_env demo_cfg False 25 4 (''erin'', PStr ''tok0'') =
     ([Processing ''erin'', HttpGet OURA_SLEEP_URL ''tok0'' 739402 739410], Inl IndexError)
   \<and> process_patient demo_env demo_cfg False 25 4 (''dave'', PStr ''tok1'') =
     ([Processing ''dave'', HttpGet OURA_SLEEP_URL ''tok1'' 739402 739410,
       ReportLastNight 7, ReportPrevious []],
      Inl StatisticsError)
   \<and> (\<exists>pct_change.
        process_patient demo_env demo_cfg False 25 4 (''alice'', PStr ''xxx'') =
          ([Processing ''alice'', InfoSampleData, OpenSample,
            ReportLastNight 7, ReportPrevious [7, 7, 7, 7], ReportPctChange pct_change],
           Inl ValueError))"
proof -
  have f0: "fetch_sleep_json demo_env (PStr ''tok0'') 8 =
              ([HttpGet OURA_SLEEP_URL ''tok0'' 739402 739410], Inr (PList []))"
    by (simp add: fetch_sleep_json_def use_sample_def startswith_def DUMMY_def
          demo_env_def demo_oura_def sorted_by_day_def)
  have i0: "py_iter (PList []) = Inr []" by simp
  have n0: "nightly_totals [] = Inr []" by (simp add: nightly_totals_def last8_def)
  have f1: "fetch_sleep_json demo_env (PStr ''tok1'') 8 =
              ([HttpGet OURA_SLEEP_URL ''tok1'' 739402 739410],
               Inr (PList [night ''2025-06-08'' 25200]))"
    by (simp add: fetch_sleep_json_def use_sample_def startswith_def DUMMY_def
          demo_env_def demo_oura_def sorted_by_day_def night_def)
  have i1: "py_iter (PList [night ''2025-06-08'' 25200]) = Inr [night ''2025-06-08'' 25200]"
    by simp
  have n1: "nightly_totals [night ''2025-06-08'' 25200] = Inr [7]"
    by (simp add: nightly_totals_def last8_def night_def)
  have f5: "fetch_sleep_json demo_env (PStr ''xxx'') 8 =
              ([InfoSampleData, OpenSample],
               Inr (PList [night ''2025-06-01'' 25200, night ''2025-06-02'' 25200,
                           night ''2025-06-03'' 25200, night ''2025-06-04'' 25200,
                           night ''2025-06-05'' 25200]))"
    by (simp add: fetch_sleep_json_def use_sample_def startswith_def DUMMY_def
          demo_env_def demo_sample_def)
  have i5: "py_iter (PList [night ''2025-06-01'' 25200, night ''2025-06-02'' 25200,
                           night ''2025-06-03'' 25200, night ''2025-06-04'' 25200,
                           night ''2025-06-05'' 25200]) =
              Inr [night ''2025-06-01'' 25200, night ''2025-06-02'' 25200,
                   night ''2025-06-03'' 25200, night ''2025-06-04'' 25200,
                   night ''2025-06-05'' 25200]"
    by simp
  have n5: "nightly_totals [night ''2025-06-01'' 25200, night ''2025-06-02'' 25200,
                   night ''2025-06-03'' 25200, night ''2025-06-04'' 25200,
                   night ''2025-06-05'' 25200] = Inr [7, 7, 7, 7, 7]"
    by (simp add: nightly_totals_def last8_def night_def)
  from pipeline_short_series [OF f0 i0 n0, of demo_cfg False 25 4 "''erin''"]
  have a: "process_patient demo_env demo_cfg False 25 4 (''erin'', PStr ''tok0'') =
     ([Processing ''erin'', HttpGet OURA_SLEEP_URL ''tok0'' 739402 739410], Inl IndexError)"
    by simp
  from pipeline_short_series [OF f1 i1 n1, of demo_cfg False 25 4 "''dave''"]
  have b: "process_patient demo_env demo_cfg False 25 4 (''dave'', PStr ''tok1'') =
     ([Processing ''dave'', HttpGet OURA_SLEEP_URL ''tok1'' 739402 739410,
       ReportLastNight 7, ReportPrevious []],
      Inl StatisticsError)"
    by simp
  from pipeline_short_series [OF f5 i5 n5, of demo_cfg False 25 4 "''alice''"]
  have c: "\<exists>pct_change.
        process_patient demo_env demo_cfg False 25 4 (''alice'', PStr ''xxx'') =
          ([Processing ''alice'', InfoSampleData, OpenSample,
            ReportLastNight 7, ReportPrevious [7, 7, 7, 7], ReportPctChange pct_change],
           Inl ValueError)"
    by auto
  from a b c show ?thesis by blast
qed

lemma run_patients_stops:
  assumes "\<forall>q \<in> set pre. snd (process_patient w cfg dry_flag deviation min_hours q) = Inr ()"
    and "snd (process_patient w cfg dry_flag deviation min_hours p) = Inl e"
  shows "run_patients w cfg dry_flag deviation min_hours (pre @ p # post) =
           (concat (map (\<lambda>q. fst (process_patient w cfg dry_flag deviation min_hours q)) (pre @ [p])),
            Inl e)"
  using assms(1)
proof (induction pre)
  case Nil
  from assms(2) show ?case by (simp add: fst_then_do_Inl)
next
  case (Cons q pre)
  then have q: "snd (process_patient w cfg dry_flag deviation min_hours q) = Inr ()"
    and rest: "run_patients w cfg dry_flag deviation min_hours (pre @ p # post) =
           (concat (map (\<lambda>q. fst (process_patient w cfg dry_flag deviation min_hours q)) (pre @ [p])),
            Inl e)"
    by simp_all
  show ?case by (simp add: then_do_Inr [OF q] rest)
qed

text \<open>Where every patient is processed without error, the loop processes them all, in order.\<close>

lemma run_patients_all:
  assumes "\<forall>q \<in> set items. snd (process_patient w cfg dry_flag deviation min_hours q) = Inr ()"
  shows "run_patients w cfg dry_flag deviation min_hours items =
           (concat (map (\<lambda>q. fst (process_patient w cfg dry_flag deviation min_hours q)) items),
            Inr ())"
  using assms
proof (induction items)
  case Nil
  show ?case by (simp add: pure_step_def)
next
  case (Cons q items)
  then have q: "snd (process_patient w cfg dry_flag deviation min_hours q) = Inr ()"
    and rest: "run_patients w cfg dry_flag deviation min_hours items =
           (concat (map (\<lambda>q. fst (process_patient w cfg dry_flag deviation min_hours q)) items),
            Inr ())"
    by simp_all
  show ?case by (simp add: then_do_Inr [OF q] rest)
qed

text \<open>The example world, evaluated.\<close>

lemma demo_load_config: "load_config demo_env = ([], Inr demo_cfg)"
  by (simp add: load_config_def demo_env_def pure_step_def)

lemma demo_tokens:
  "py_get demo_cfg ''oura_api_tokens'' (PDict []) =
     Inr (PDict ([(''bob'', PStr ''tok8'')] @ (''alice'', PStr ''xxx'') # [(''carol'', PStr ''tok8'')]))"
  by (simp add: demo_cfg_def)

lemma demo_fetch_tok8:
  "fetch_sleep_json demo_env (PStr ''tok8'') 8 =
     ([HttpGet OURA_SLEEP_URL ''tok8'' 739402 739410],
      Inr (PList [night ''2025-06-01'' 25200, night ''2025-06-02'' 25200,
                  night ''2025-06-03'' 25200, night ''2025-06-04'' 25200,
                  night ''2025-06-05'' 25200, night ''2025-06-06'' 25200,
                  night ''2025-06-07'' 25200, night ''2025-06-08'' 34200]))"
  by (simp add: fetch_sleep_json_def use_sample_def startswith_def DUMMY_def demo_env_def
        demo_oura_def demo_unsorted_def sorted_by_day_def night_def day_string_def)

lemma demo_hours_tok8:
  "nightly_totals [night ''2025-06-01'' 25200, night ''2025-06-02'' 25200,
                   night ''2025-06-03'' 25200, night ''2025-06-04'' 25200,
                   night ''2025-06-05'' 25200, night ''2025-06-06'' 25200,
                   night ''2025-06-07'' 25200, night ''2025-06-08'' 34200] =
     Inr [7, 7, 7, 7, 7, 7, 7, 19 / 2]"
  by (simp add: nightly_totals_def last8_def night_def)

lemma demo_fetch_sample:
  "fetch_sleep_json demo_env (PStr ''xxx'') 8 =
     ([InfoSampleData, OpenSample],
      Inr (PList [night ''2025-06-01'' 25200, night ''2025-06-02'' 25200,
                  night ''2025-06-03'' 25200, night ''2025-06-04'' 25200,
                  night ''2025-06-05'' 25200]))"
  by (simp add: fetch_sleep_json_def use_sample_def startswith_def DUMMY_def
        demo_env_def demo_sample_def)

lemma demo_hours_sample:
  "nightly_totals [night ''2025-06-01'' 25200, night ''2025-06-02'' 25200,
                   night ''2025-06-03'' 25200, night ''2025-06-04'' 25200,
                   night ''2025-06-05'' 25200] = Inr [7, 7, 7, 7, 7]"
  by (simp add: nightly_totals_def last8_def night_def)

lemma demo_send:
  "send_qualtrics_survey demo_env demo_cfg patient_id dry = ([DryRunEmail, DryRunSMS], Inr ())"
proof (rule send_dry)
  show "py_get demo_cfg ''qualtrics'' (PDict []) = Inr (PDict [(''api_token'', PStr ''xxx'')])"
    by (simp add: demo_cfg_def)
  show "py_get (PDict [(''api_token'', PStr ''xxx'')]) ''api_token'' (PStr DUMMY) = Inr (PStr ''xxx'')"
    by simp
  show "startswith ''xxx'' DUMMY \<or> dry"
    by (simp add: startswith_def DUMMY_def)
qed

lemma demo_process_tok8:
  "process_patient demo_env demo_cfg dry 25 4 (patient_id, PStr ''tok8'') =
     ([Processing patient_id, HttpGet OURA_SLEEP_URL ''tok8'' 739402 739410,
       ReportLastNight (19 / 2), ReportPrevious [7, 7, 7, 7, 7, 7, 7],
       ReportPctChange (250 / 7), TriggerMet, DryRunEmail, DryRunSMS],
      Inr ())"
proof -
  have m: "report_metrics [7, 7, 7, 7, 7, 7, 7, 19 / 2] =
             ([ReportLastNight (19 / 2), ReportPrevious [7, 7, 7, 7, 7, 7, 7],
               ReportPctChange (250 / 7)],
              Inr (19 / 2, 7, 250 / 7))"
    by (simp add: report_metrics_def py_div_def pure_step_def)
  have t: "should_trigger [7, 7, 7, 7, 7, 7, 7, 19 / 2] 25 4 = Inr (RNum (250 / 7))"
    by (simp add: should_trigger_def trigger_locals_def py_div_def trigger_expr_def)
  show ?thesis
    by (simp add: process_patient_after_fetch [OF demo_fetch_tok8 py_iter.simps(1) demo_hours_tok8]
          m t demo_send)
qed

lemma demo_process_sample:
  "process_patient demo_env demo_cfg dry 25 4 (patient_id, PStr ''xxx'') =
     ([Processing patient_id, InfoSampleData, OpenSample,
       ReportLastNight 7, ReportPrevious [7, 7, 7, 7], ReportPctChange 0],
      Inl ValueError)"
proof -
  have m: "report_metrics [7, 7, 7, 7, 7] =
             ([ReportLastNight 7, ReportPrevious [7, 7, 7, 7], ReportPctChange 0],
              Inr (7, 7, 0))"
    by (simp add: report_metrics_def py_div_def pure_step_def)
  have t: "should_trigger [7, 7, 7, 7, 7] 25 4 = Inl ValueError"
    by (simp add: should_trigger_def)
  show ?thesis
    by (simp add: process_patient_after_fetch [OF demo_fetch_sample py_iter.simps(1) demo_hours_sample]
          m t)
qed

text \<open>
  C2, as stated, fails. In the example world \<open>bob\<close> is processed, \<open>alice\<close> (sample
  data, 5 nights) fails with the insufficient-data \<^verbatim>\<open>ValueError\<close>, and the run ends with
  that error: \<open>carol\<close>, who comes after \<open>alice\<close> and whose processing alone succeeds, is
  never processed.
\<close>

theorem run_once_aborts_counterexample:
  "snd (process_patient demo_env demo_cfg True 25 4 (''alice'', PStr ''xxx'')) = Inl ValueError
   \<and> snd (process_patient demo_env demo_cfg True 25 4 (''carol'', PStr ''tok8'')) = Inr ()
   \<and> run_once demo_env True 25 4 =
       ([Processing ''bob'', HttpGet OURA_SLEEP_URL ''tok8'' 739402 739410,
         ReportLastNight (19 / 2), ReportPrevious [7, 7, 7, 7, 7, 7, 7],
         ReportPctChange (250 / 7), TriggerMet, DryRunEmail, DryRunSMS,
         Processing ''alice'', InfoSampleData, OpenSample,
         ReportLastNight 7, ReportPrevious [7, 7, 7, 7], ReportPctChange 0],
        Inl ValueError)
   \<and> Processing ''carol'' \<notin> set (fst (run_once demo_env True 25 4))"
proof -
  have run: "run_once demo_env True 25 4 =
       ([Processing ''bob'', HttpGet OURA_SLEEP_URL ''tok8'' 739402 739410,
         ReportLastNight (19 / 2), ReportPrevious [7, 7, 7, 7, 7, 7, 7],
         ReportPctChange (250 / 7), TriggerMet, DryRunEmail, DryRunSMS,
         Processing ''alice'', InfoSampleData, OpenSample,
         ReportLastNight 7, ReportPrevious [7, 7, 7, 7], ReportPctChange 0],
        Inl ValueError)"
    unfolding run_once_def
    by (simp add: demo_load_config demo_tokens demo_process_tok8 demo_process_sample)
  show ?thesis
    by (simp add: run demo_process_tok8 demo_process_sample)
qed

text \<open>
  C2, amended. \<^verbatim>\<open>run_once\<close> has no error isolation: when the processing of one patient
  fails with an error and the patients before it were processed without error, the run
  ends there with that error. What the run did is what the configuration load and the
  patients up to and including the failing one did; no patient after it is processed.
\<close>

theorem run_once_stops_at_first_error:
  assumes "load_config w = (cevs, Inr cfg)"
    and "py_get cfg ''oura_api_tokens'' (PDict []) = Inr (PDict (pre @ p # post))"
    and "\<forall>q \<in> set pre. snd (process_patient w cfg dry_flag deviation min_hours q) = Inr ()"
    and "snd (process_patient w cfg dry_flag deviation min_hours p) = Inl e"
  shows "run_once w dry_flag deviation min_hours =
           (cevs @ concat (map (\<lambda>q. fst (process_patient w cfg dry_flag deviation min_hours q))
                               (pre @ [p])),
            Inl e)"
proof -
  have "truthy (PDict (pre @ p # post))" by simp
  then show ?thesis
    unfolding run_once_def
    by (simp add: assms(1) assms(2) run_patients_stops [OF assms(3) assms(4)])
qed

theorem run_once_stops_at_first_error_witness:
  "load_config demo_env = ([], Inr demo_cfg)
   \<and> py_get demo_cfg ''oura_api_tokens'' (PDict []) =
       Inr (PDict ([(''bob'', PStr ''tok8'')] @ (''alice'', PStr ''xxx'') # [(''carol'', PStr ''tok8'')]))
   \<and> snd (process_patient demo_env demo_cfg True 25 4 (''bob'', PStr ''tok8'')) = Inr ()
   \<and> snd (process_patient demo_env demo_cfg True 25 4 (''alice'', PStr ''xxx'')) = Inl ValueError
   \<and> run_once demo_env True 25 4 =
       ([] @ concat (map (\<lambda>q. fst (process_patient demo_env demo_cfg True 25 4 q))
                         ([(''bob'', PStr ''tok8'')] @ [(''alice'', PStr ''xxx'')])),
        Inl ValueError)"
proof -
  have h3: "\<forall>q \<in> set [(''bob'', PStr ''tok8'')].
              snd (process_patient demo_env demo_cfg True 25 4 q) = Inr ()"
    by (simp add: demo_process_tok8)
  have h4: "snd (process_patient demo_env demo_cfg True 25 4 (''alice'', PStr ''xxx'')) = Inl ValueError"
    by (simp add: demo_process_sample)
  have h3': "snd (process_patient demo_env demo_cfg True 25 4 (''bob'', PStr ''tok8'')) = Inr ()"
    by (simp add: demo_process_tok8)
  from demo_load_config demo_tokens h3' h4
       run_once_stops_at_first_error [OF demo_load_config demo_tokens h3 h4]
  show ?thesis by (intro conjI)
qed

end
